theory Spec2Isabelle
  imports Main
begin

section \<open>Data model (src/types/types.ts)\<close>

text \<open>
  The enums \<open>TransactionType\<close>, \<open>WebhookType\<close>, \<open>TxnStatus\<close> and
  \<open>AccountWebhookEncoding\<close> are imported from \<^verbatim>\<open>./enums\<close>; their members are
  strings at run time, and the code studied here only copies them and tests
  \<open>webhookType\<close> for truthiness.
\<close>

type_synonym TransactionType = string
type_synonym WebhookType = string
type_synonym TxnStatus = string
type_synonym AccountWebhookEncoding = string

text \<open>\<open>EditWebhookRequest = Partial<Omit<Webhook, ...>>\<close>: every field optional.\<close>

record EditWebhookRequest =
  webhookURL :: "string option"
  transactionTypes :: "TransactionType list option"
  accountAddresses :: "string list option"
  accountAddressOwners :: "string list option"
  webhookType :: "WebhookType option"
  authHeader :: "string option"
  txnStatus :: "TxnStatus option"
  encoding :: "AccountWebhookEncoding option"

text \<open>
  \<open>CreateWebhookRequest = Omit<Webhook, 'webhookID' | 'wallet' | 'project'>\<close>: the
  caller-mutable fields. An optional field (\<open>f?: T\<close>) is an \<open>option\<close>; \<open>None\<close>
  stands for a missing, \<open>undefined\<close> or \<open>null\<close> field, which the operators used by the
  code (\<open>== undefined\<close>, \<open>!= undefined\<close>, \<open>??\<close>) do not tell apart.
\<close>

record CreateWebhookRequest =
  webhookURL :: string
  transactionTypes :: "TransactionType list"
  accountAddresses :: "string list"
  accountAddressOwners :: "string list option"
  webhookType :: "WebhookType option"
  authHeader :: "string option"
  txnStatus :: "TxnStatus option"
  encoding :: "AccountWebhookEncoding option"

record Webhook = CreateWebhookRequest +
  webhookID :: string
  wallet :: string
  project :: string

record CollectionIdentifier =
  firstVerifiedCreators :: "string list option"
  verifiedCollectionAddresses :: "string list option"

record CreateCollectionWebhookRequest = CreateWebhookRequest +
  collectionQuery :: "CollectionIdentifier option"

record MintlistItem =
  mint :: string
  name :: string

record HeliusOptions =
  limit :: "int option"
  paginationToken :: "string option"

record MintlistRequest =
  query :: "CollectionIdentifier option"
  options :: "HeliusOptions option"

text \<open>
  \<open>MintlistResponse.paginationToken\<close> is declared \<open>string\<close>, but the value comes
  from the parsed response body, and the loop tests it for truthiness: the three
  values that matter at run time are kept apart.
\<close>

datatype js_token = JUndefined | JNull | JString string

record MintlistResponse =
  result :: "MintlistItem list"
  paginationToken :: js_token

section \<open>Errors\<close>

text \<open>
  What axios rejects with: the error's message and the value of
  \<open>err.response?.data.error\<close> (\<open>None\<close> when there is no response or no such
  field). A thrown value is either such an error or a plain \<open>Error\<close> with its message.
\<close>

record AxiosError =
  message :: string
  response_data_error :: "string option"

datatype js_error = Error string | Axios AxiosError

text \<open>\<open>`${err}`\<close>: \<open>Error.prototype.toString\<close>.\<close>

fun toString :: "js_error \<Rightarrow> string" where
  "toString (Error m) = (if m = [] then ''Error'' else ''Error: '' @ m)"
| "toString (Axios a) = (if message a = [] then ''AxiosError'' else ''AxiosError: '' @ message a)"

text \<open>
  The catch block every public method ends with:
  \<^verbatim>\<open>
  if (axios.isAxiosError(err)) {
    throw new Error(`error during op: ${err.response?.data.error || err}`);
  } else {
    throw new Error(`error during op: ${err}`);
  }
  \<close>
\<close>

fun rethrow :: "string \<Rightarrow> js_error \<Rightarrow> js_error" where
  "rethrow prefix (Axios a) =
     Error (prefix @
       (case response_data_error a of
          Some e \<Rightarrow> if e \<noteq> [] then e else toString (Axios a)
        | None \<Rightarrow> toString (Axios a)))"
| "rethrow prefix (Error m) = Error (prefix @ toString (Error m))"

section \<open>The remote service and the calls made to it\<close>

text \<open>
  The remote service is a state machine of an arbitrary state type \<open>'s\<close>: one
  handler per endpoint the code calls, each answering with an axios rejection or the
  response body. The world threaded through the client is the service's state and
  the trace of the requests issued so far, each with its outcome.
\<close>

record 's remote =
  get_webhook :: "string \<Rightarrow> 's \<Rightarrow> (AxiosError + Webhook) \<times> 's"
  post_webhooks :: "CreateWebhookRequest \<Rightarrow> 's \<Rightarrow> (AxiosError + Webhook) \<times> 's"
  put_webhook :: "string \<Rightarrow> EditWebhookRequest \<Rightarrow> 's \<Rightarrow> (AxiosError + Webhook) \<times> 's"
  post_mintlist :: "MintlistRequest \<Rightarrow> 's \<Rightarrow> (AxiosError + MintlistResponse) \<times> 's"

datatype call =
    GetWebhook string "AxiosError + Webhook"
  | PostWebhooks CreateWebhookRequest "AxiosError + Webhook"
  | PutWebhook string EditWebhookRequest "AxiosError + Webhook"
  | PostMintlist MintlistRequest "AxiosError + MintlistResponse"

record 's world =
  server :: 's
  calls :: "call list"

definition axios_get_webhook ::
  "'s remote \<Rightarrow> string \<Rightarrow> 's world \<Rightarrow> (AxiosError + Webhook) \<times> 's world" where
  "axios_get_webhook r wid w =
     (case get_webhook r wid (server w) of
        (out, s') \<Rightarrow> (out, \<lparr>server = s', calls = calls w @ [GetWebhook wid out]\<rparr>))"

definition axios_post_webhooks ::
  "'s remote \<Rightarrow> CreateWebhookRequest \<Rightarrow> 's world \<Rightarrow> (AxiosError + Webhook) \<times> 's world" where
  "axios_post_webhooks r body w =
     (case post_webhooks r body (server w) of
        (out, s') \<Rightarrow> (out, \<lparr>server = s', calls = calls w @ [PostWebhooks body out]\<rparr>))"

definition axios_put_webhook ::
  "'s remote \<Rightarrow> string \<Rightarrow> EditWebhookRequest \<Rightarrow> 's world \<Rightarrow> (AxiosError + Webhook) \<times> 's world" where
  "axios_put_webhook r wid body w =
     (case put_webhook r wid body (server w) of
        (out, s') \<Rightarrow> (out, \<lparr>server = s', calls = calls w @ [PutWebhook wid body out]\<rparr>))"

definition axios_post_mintlist ::
  "'s remote \<Rightarrow> MintlistRequest \<Rightarrow> 's world \<Rightarrow> (AxiosError + MintlistResponse) \<times> 's world" where
  "axios_post_mintlist r body w =
     (case post_mintlist r body (server w) of
        (out, s') \<Rightarrow> (out, \<lparr>server = s', calls = calls w @ [PostMintlist body out]\<rparr>))"

section \<open>Operations (src/Helius.ts)\<close>

text \<open>
  \<open>getApiEndpoint\<close> cannot throw on the paths used here: they start with \<open>/v0\<close> or
  \<open>/v1\<close>, and the constructor refuses an empty API key.
\<close>

definition getWebhookByID ::
  "'s remote \<Rightarrow> string \<Rightarrow> 's world \<Rightarrow> (js_error + Webhook) \<times> 's world" where
  "getWebhookByID r wid w =
     (case axios_get_webhook r wid w of
        (Inr data, w') \<Rightarrow> (Inr data, w')
      | (Inl err, w') \<Rightarrow> (Inl (rethrow ''error during getWebhookByID: '' (Axios err)), w'))"

definition createWebhook ::
  "'s remote \<Rightarrow> CreateWebhookRequest \<Rightarrow> 's world \<Rightarrow> (js_error + Webhook) \<times> 's world" where
  "createWebhook r createWebhookRequest w =
     (case axios_post_webhooks r createWebhookRequest w of
        (Inr data, w') \<Rightarrow> (Inr data, w')
      | (Inl err, w') \<Rightarrow> (Inl (rethrow ''error during createWebhook: '' (Axios err)), w'))"

text \<open>The object literal \<open>editRequest\<close> of \<open>_editWebhook\<close>; \<open>a ?? b\<close> is \<open>b\<close> when
  \<open>a\<close> is \<open>undefined\<close> or \<open>null\<close>, and \<open>a\<close> otherwise.\<close>

definition editRequest :: "Webhook \<Rightarrow> EditWebhookRequest \<Rightarrow> EditWebhookRequest" where
  "editRequest existingWebhook editWebhookRequest =
     \<lparr> EditWebhookRequest.webhookURL =
         (case EditWebhookRequest.webhookURL editWebhookRequest of
            Some v \<Rightarrow> Some v
          | None \<Rightarrow> Some (webhookURL existingWebhook)),
       EditWebhookRequest.transactionTypes =
         (case EditWebhookRequest.transactionTypes editWebhookRequest of
            Some v \<Rightarrow> Some v
          | None \<Rightarrow> Some (transactionTypes existingWebhook)),
       EditWebhookRequest.accountAddresses =
         (case EditWebhookRequest.accountAddresses editWebhookRequest of
            Some v \<Rightarrow> Some v
          | None \<Rightarrow> Some (accountAddresses existingWebhook)),
       EditWebhookRequest.accountAddressOwners =
         (case EditWebhookRequest.accountAddressOwners editWebhookRequest of
            Some v \<Rightarrow> Some v
          | None \<Rightarrow> accountAddressOwners existingWebhook),
       EditWebhookRequest.webhookType =
         (case EditWebhookRequest.webhookType editWebhookRequest of
            Some v \<Rightarrow> Some v
          | None \<Rightarrow> webhookType existingWebhook),
       EditWebhookRequest.authHeader =
         (case EditWebhookRequest.authHeader editWebhookRequest of
            Some v \<Rightarrow> Some v
          | None \<Rightarrow> authHeader existingWebhook),
       EditWebhookRequest.txnStatus =
         (case EditWebhookRequest.txnStatus editWebhookRequest of
            Some v \<Rightarrow> Some v
          | None \<Rightarrow> txnStatus existingWebhook),
       EditWebhookRequest.encoding =
         (case EditWebhookRequest.encoding editWebhookRequest of
            Some v \<Rightarrow> Some v
          | None \<Rightarrow> encoding existingWebhook) \<rparr>"

text \<open>\<open>_editWebhook\<close> (an Isabelle name cannot start with an underscore). It has no
  catch block: a rejection of \<open>axios.put\<close> leaves it as it is.\<close>

definition editWebhook_private ::
  "'s remote \<Rightarrow> string \<Rightarrow> Webhook \<Rightarrow> EditWebhookRequest \<Rightarrow> 's world
     \<Rightarrow> (js_error + Webhook) \<times> 's world" where
  "editWebhook_private r wid existingWebhook editWebhookRequest w =
     (case axios_put_webhook r wid (editRequest existingWebhook editWebhookRequest) w of
        (Inr data, w') \<Rightarrow> (Inr data, w')
      | (Inl err, w') \<Rightarrow> (Inl (Axios err), w'))"

text \<open>
  In the three methods below \<open>_editWebhook\<close> is returned from inside the \<open>try\<close>
  without \<open>await\<close>, so its rejection is not caught there and reaches the caller
  unwrapped; what \<open>getWebhookByID\<close> throws is awaited inside the \<open>try\<close> and
  is rethrown by the catch block.
\<close>

definition editWebhook ::
  "'s remote \<Rightarrow> string \<Rightarrow> EditWebhookRequest \<Rightarrow> 's world \<Rightarrow> (js_error + Webhook) \<times> 's world" where
  "editWebhook r wid editWebhookRequest w =
     (case getWebhookByID r wid w of
        (Inl err, w') \<Rightarrow> (Inl (rethrow ''error during editWebhook: '' err), w')
      | (Inr existing, w') \<Rightarrow> editWebhook_private r wid existing editWebhookRequest w')"

text \<open>The object literal \<open>{ accountAddresses }\<close> of lines 202 and 234: an edit request
  with that one field.\<close>

definition only_addresses :: "string list \<Rightarrow> EditWebhookRequest" where
  "only_addresses addresses =
     \<lparr> EditWebhookRequest.webhookURL = None,
       EditWebhookRequest.transactionTypes = None,
       EditWebhookRequest.accountAddresses = Some addresses,
       EditWebhookRequest.accountAddressOwners = None,
       EditWebhookRequest.webhookType = None,
       EditWebhookRequest.authHeader = None,
       EditWebhookRequest.txnStatus = None,
       EditWebhookRequest.encoding = None \<rparr>"

definition appendAddressesToWebhook ::
  "'s remote \<Rightarrow> string \<Rightarrow> string list \<Rightarrow> 's world \<Rightarrow> (js_error + Webhook) \<times> 's world" where
  "appendAddressesToWebhook r wid newAccountAddresses w =
     (case getWebhookByID r wid w of
        (Inl err, w') \<Rightarrow> (Inl (rethrow ''error during appendAddressesToWebhook: '' err), w')
      | (Inr webhook, w') \<Rightarrow>
          (let accountAddresses = accountAddresses webhook @ newAccountAddresses
           in if length accountAddresses > 100000
              then (Inl (rethrow ''error during appendAddressesToWebhook: ''
                      (Error ''a single webhook cannot contain more than 100,000 addresses'')), w')
              else editWebhook_private r wid webhook
                     (only_addresses accountAddresses) w'))"

definition removeAddressesFromWebhook ::
  "'s remote \<Rightarrow> string \<Rightarrow> string list \<Rightarrow> 's world \<Rightarrow> (js_error + Webhook) \<times> 's world" where
  "removeAddressesFromWebhook r wid addressesToRemove w =
     (case getWebhookByID r wid w of
        (Inl err, w') \<Rightarrow> (Inl (rethrow ''error during removeAddressesFromWebhook: '' err), w')
      | (Inr webhook, w') \<Rightarrow>
          (let accountAddresses =
                 filter (\<lambda>address. address \<notin> set addressesToRemove)
                   (accountAddresses webhook)
           in editWebhook_private r wid webhook
                (only_addresses accountAddresses) w'))"

definition getMintlist ::
  "'s remote \<Rightarrow> MintlistRequest option \<Rightarrow> 's world
     \<Rightarrow> (js_error + MintlistResponse) \<times> 's world" where
  "getMintlist r request w =
     (case request of
        None \<Rightarrow> (Inl (Error ''must provide query object.''), w)
      | Some rq \<Rightarrow>
     (case query rq of
        None \<Rightarrow> (Inl (Error ''must provide query object.''), w)
      | Some q \<Rightarrow>
          if firstVerifiedCreators q \<noteq> None \<and> verifiedCollectionAddresses q \<noteq> None
          then (Inl (Error (''cannot provide both firstVerifiedCreators and '' @
                  ''verifiedCollectionAddresses. Please only provide one.'')), w)
          else (case axios_post_mintlist r rq w of
                  (Inr data, w') \<Rightarrow> (Inr data, w')
                | (Inl err, w') \<Rightarrow> (Inl (rethrow ''error during getMintlist: '' (Axios err)), w'))))"

text \<open>The request of the first page (lines 278-283) and of a later one (lines 287-293).\<close>

definition first_page :: "CollectionIdentifier \<Rightarrow> MintlistRequest" where
  "first_page q =
     \<lparr> query = Some q,
       options = Some \<lparr> limit = Some 10000, HeliusOptions.paginationToken = None \<rparr> \<rparr>"

definition next_page :: "CollectionIdentifier \<Rightarrow> string \<Rightarrow> MintlistRequest" where
  "next_page q token =
     \<lparr> query = Some q,
       options = Some \<lparr> limit = Some 10000, HeliusOptions.paginationToken = Some token \<rparr> \<rparr>"

text \<open>
  The loop \<open>while (mints.paginationToken) { ... }\<close> (lines 286-295), with the
  variables it reads and writes (\<open>mints\<close>, \<open>mintlist\<close>) as arguments; \<open>Inl\<close> is
  what \<open>getMintlist\<close> threw. The loop has no bound: where it does not end, the value
  is \<open>None\<close>. A token is truthy when it is a non-empty string.
\<close>

partial_function (option) drain_while ::
  "'s remote \<Rightarrow> CollectionIdentifier \<Rightarrow> MintlistResponse \<Rightarrow> MintlistItem list \<Rightarrow> 's world
     \<Rightarrow> ((js_error + MintlistItem list) \<times> 's world) option" where
  "drain_while r q mints mintlist w =
     (case paginationToken mints of
        JUndefined \<Rightarrow> Some (Inr mintlist, w)
      | JNull \<Rightarrow> Some (Inr mintlist, w)
      | JString token \<Rightarrow>
          if token = [] then Some (Inr mintlist, w)
          else (case getMintlist r (Some (next_page q token)) w of
                  (Inl err, w') \<Rightarrow> Some (Inl err, w')
                | (Inr mints', w') \<Rightarrow> drain_while r q mints' (mintlist @ result mints') w'))"

declare drain_while.simps [code]

text \<open>Lines 278-295: the first page, then the loop.\<close>

definition drain ::
  "'s remote \<Rightarrow> CollectionIdentifier \<Rightarrow> 's world
     \<Rightarrow> ((js_error + MintlistItem list) \<times> 's world) option" where
  "drain r q w =
     (case getMintlist r (Some (first_page q)) w of
        (Inl err, w') \<Rightarrow> Some (Inl err, w')
      | (Inr mints, w') \<Rightarrow> drain_while r q mints ([] @ result mints) w')"

text \<open>The object \<open>payload\<close> of lines 297-308; \<open>if (authHeader)\<close> and
  \<open>if (webhookType)\<close> hold for a non-empty string.\<close>

definition payload :: "CreateCollectionWebhookRequest \<Rightarrow> MintlistItem list \<Rightarrow> CreateWebhookRequest" where
  "payload request mintlist =
     \<lparr> webhookURL = webhookURL request,
       transactionTypes = transactionTypes request,
       accountAddresses = map mint mintlist,
       accountAddressOwners = None,
       webhookType =
         (case webhookType request of Some t \<Rightarrow> if t \<noteq> [] then Some t else None | None \<Rightarrow> None),
       authHeader =
         (case authHeader request of Some h \<Rightarrow> if h \<noteq> [] then Some h else None | None \<Rightarrow> None),
       txnStatus = None,
       encoding = None \<rparr>"

text \<open>
  The \<open>try\<close> statement of \<open>createCollectionWebhook\<close> (lines 277-321) for the
  query \<open>q\<close> chosen before it: whatever is thrown inside (by \<open>getMintlist\<close> or
  by the awaited \<open>createWebhook\<close>) goes through the catch block.
\<close>

definition createCollectionWebhook_try ::
  "'s remote \<Rightarrow> CreateCollectionWebhookRequest \<Rightarrow> CollectionIdentifier \<Rightarrow> 's world
     \<Rightarrow> ((js_error + Webhook) \<times> 's world) option" where
  "createCollectionWebhook_try r request q w =
     (case drain r q w of
        None \<Rightarrow> None
      | Some (Inl err, w') \<Rightarrow>
          Some (Inl (rethrow ''error during createCollectionWebhook: '' err), w')
      | Some (Inr mintlist, w') \<Rightarrow>
          (case createWebhook r (payload request mintlist) w' of
             (Inr data, w'') \<Rightarrow> Some (Inr data, w'')
           | (Inl err, w'') \<Rightarrow>
               Some (Inl (rethrow ''error during createCollectionWebhook: '' err), w'')))"

text \<open>
  \<open>createCollectionWebhook\<close>: the two checks before the \<open>try\<close> throw as they
  are (\<open>request?.collectionQuery == undefined\<close> holds for a missing request and
  for a missing query), then the query is chosen (lines 270-275).
\<close>

definition createCollectionWebhook ::
  "'s remote \<Rightarrow> CreateCollectionWebhookRequest option \<Rightarrow> 's world
     \<Rightarrow> ((js_error + Webhook) \<times> 's world) option" where
  "createCollectionWebhook r request w =
     (case request of
        None \<Rightarrow> Some (Inl (Error ''must provide collectionQuery object.''), w)
      | Some rq \<Rightarrow>
     (case collectionQuery rq of
        None \<Rightarrow> Some (Inl (Error ''must provide collectionQuery object.''), w)
      | Some cq \<Rightarrow>
          if firstVerifiedCreators cq \<noteq> None \<and> verifiedCollectionAddresses cq \<noteq> None
          then Some (Inl (Error (''cannot provide both firstVerifiedCreators and '' @
                  ''verifiedCollectionAddresses. Please only provide one.'')), w)
          else
            (let query =
                   (if firstVerifiedCreators cq \<noteq> None
                    then \<lparr> firstVerifiedCreators = firstVerifiedCreators cq,
                           verifiedCollectionAddresses = None \<rparr>
                    else \<lparr> firstVerifiedCreators = None,
                           verifiedCollectionAddresses = verifiedCollectionAddresses cq \<rparr>)
             in createCollectionWebhook_try r rq query w)))"

section \<open>Reading a run\<close>

text \<open>A token is truthy when it is a non-empty string; \<open>token_text\<close> is that string.\<close>

fun truthy :: "js_token \<Rightarrow> bool" where
  "truthy (JString t) = (t \<noteq> [])"
| "truthy JUndefined = False"
| "truthy JNull = False"

fun token_text :: "js_token \<Rightarrow> string" where
  "token_text (JString t) = t"
| "token_text JUndefined = []"
| "token_text JNull = []"

text \<open>
  The calls of a drain that received the pages \<open>ps\<close>, in order: the first page is
  asked for without a token, every later one with the token of the page before it.
\<close>

fun later_calls :: "CollectionIdentifier \<Rightarrow> MintlistResponse \<Rightarrow> MintlistResponse list \<Rightarrow> call list" where
  "later_calls q prev [] = []"
| "later_calls q prev (p # ps) =
     PostMintlist (next_page q (token_text (paginationToken prev))) (Inr p) # later_calls q p ps"

fun drain_calls :: "CollectionIdentifier \<Rightarrow> MintlistResponse list \<Rightarrow> call list" where
  "drain_calls q [] = []"
| "drain_calls q (p # ps) = PostMintlist (first_page q) (Inr p) # later_calls q p ps"

text \<open>The request that follows the pages \<open>ps\<close>.\<close>

fun request_after :: "CollectionIdentifier \<Rightarrow> MintlistResponse list \<Rightarrow> MintlistRequest" where
  "request_after q [] = first_page q"
| "request_after q (p # ps) = next_page q (token_text (paginationToken (last (p # ps))))"

text \<open>The pages a trace received, the page requests that failed, and the bodies
  written by \<open>POST /v0/webhooks\<close> and \<open>PUT /v0/webhooks/id\<close>.\<close>

fun mintlist_pages :: "call list \<Rightarrow> MintlistResponse list" where
  "mintlist_pages [] = []"
| "mintlist_pages (PostMintlist rq (Inr p) # cs) = p # mintlist_pages cs"
| "mintlist_pages (c # cs) = mintlist_pages cs"

fun failed_pages :: "call list \<Rightarrow> MintlistRequest list" where
  "failed_pages [] = []"
| "failed_pages (PostMintlist rq (Inl e) # cs) = rq # failed_pages cs"
| "failed_pages (c # cs) = failed_pages cs"

fun created :: "call list \<Rightarrow> CreateWebhookRequest list" where
  "created [] = []"
| "created (PostWebhooks body out # cs) = body # created cs"
| "created (c # cs) = created cs"

fun written :: "call list \<Rightarrow> EditWebhookRequest list" where
  "written [] = []"
| "written (PutWebhook wid body out # cs) = body # written cs"
| "written (c # cs) = written cs"



text \<open>
  A service for running the operations on concrete inputs: it holds one webhook,
  which it returns for every read and every write, creates what it is asked to
  create, and answers the page requests from a script, one entry per request; its
  state counts the page requests answered.
\<close>

definition stored :: "CreateWebhookRequest \<Rightarrow> Webhook" where
  "stored body =
     \<lparr> webhookURL = webhookURL body,
       transactionTypes = transactionTypes body,
       accountAddresses = accountAddresses body,
       accountAddressOwners = accountAddressOwners body,
       webhookType = webhookType body,
       authHeader = authHeader body,
       txnStatus = txnStatus body,
       encoding = encoding body,
       webhookID = ''new'', wallet = ''wallet'', project = ''project'' \<rparr>"

definition scripted :: "Webhook \<Rightarrow> (AxiosError + MintlistResponse) list \<Rightarrow> nat remote" where
  "scripted held script =
     \<lparr> get_webhook = (\<lambda>wid s. (Inr held, s)),
       post_webhooks = (\<lambda>body s. (Inr (stored body), s)),
       put_webhook = (\<lambda>wid body s. (Inr held, s)),
       post_mintlist = (\<lambda>rq s.
         (case drop s script of
            [] \<Rightarrow> Inr \<lparr> result = [], paginationToken = JUndefined \<rparr>
          | answer # rest \<Rightarrow> answer, Suc s)) \<rparr>"

definition held_webhook :: "string list \<Rightarrow> Webhook" where
  "held_webhook addresses =
     \<lparr> webhookURL = ''A'',
       transactionTypes = [''T1''],
       accountAddresses = addresses,
       accountAddressOwners = None,
       webhookType = Some ''enhanced'',
       authHeader = None,
       txnStatus = None,
       encoding = None,
       webhookID = ''id'', wallet = ''wallet'', project = ''project'' \<rparr>"

text \<open>Inputs for those runs: a query by two collection addresses, a request that
  also sets the fields \<open>createCollectionWebhook\<close> does not read, a script of three
  pages with tokens on the first two, and one whose second request is rejected.\<close>

definition by_collections :: CollectionIdentifier where
  "by_collections =
     \<lparr> firstVerifiedCreators = None, verifiedCollectionAddresses = Some [''c1'', ''c2''] \<rparr>"

definition no_selector :: CollectionIdentifier where
  "no_selector = \<lparr> firstVerifiedCreators = None, verifiedCollectionAddresses = None \<rparr>"

definition both_selectors :: CollectionIdentifier where
  "both_selectors =
     \<lparr> firstVerifiedCreators = Some [''a1''], verifiedCollectionAddresses = Some [''c1''] \<rparr>"

definition collection_request :: "CollectionIdentifier option \<Rightarrow> CreateCollectionWebhookRequest" where
  "collection_request cq =
     \<lparr> webhookURL = ''https://example.org/hook'',
       transactionTypes = [''ANY''],
       accountAddresses = [''given''],
       accountAddressOwners = Some [''owner''],
       webhookType = None,
       authHeader = Some ''secret'',
       txnStatus = Some ''all'',
       encoding = Some ''jsonParsed'',
       collectionQuery = cq \<rparr>"

definition page1 :: MintlistResponse where
  "page1 = \<lparr> result = [\<lparr>mint = ''m1'', name = ''n1''\<rparr>, \<lparr>mint = ''m2'', name = ''n2''\<rparr>],
             paginationToken = JString ''t1'' \<rparr>"

definition page2 :: MintlistResponse where
  "page2 = \<lparr> result = [\<lparr>mint = ''m3'', name = ''n3''\<rparr>], paginationToken = JString ''t2'' \<rparr>"

definition page3 :: MintlistResponse where
  "page3 = \<lparr> result = [\<lparr>mint = ''m4'', name = ''n4''\<rparr>], paginationToken = JUndefined \<rparr>"


definition three_pages :: "(AxiosError + MintlistResponse) list" where
  "three_pages = [Inr page1, Inr page2, Inr page3]"


section \<open>The page requests of a drain\<close>

lemma getMintlist_valid:
  assumes "\<not> (firstVerifiedCreators q \<noteq> None \<and> verifiedCollectionAddresses q \<noteq> None)"
    and "query rq = Some q"
  shows "getMintlist r (Some rq) w =
     (case post_mintlist r rq (server w) of
        (Inr d, s') \<Rightarrow> (Inr d, \<lparr>server = s', calls = calls w @ [PostMintlist rq (Inr d)]\<rparr>)
      | (Inl a, s') \<Rightarrow> (Inl (rethrow ''error during getMintlist: '' (Axios a)),
                         \<lparr>server = s', calls = calls w @ [PostMintlist rq (Inl a)]\<rparr>))"
  using assms by (simp add: getMintlist_def axios_post_mintlist_def split: prod.splits sum.splits)

text \<open>
  A loop that returns has received pages \<open>ps\<close>, each but the last after a truthy
  token, and either ended on a page without one, or was ended by the failure of the
  request that followed the last page.
\<close>

lemma drain_while_run:
  assumes "drain_while r q mints acc w = Some (res, w')"
    and "\<not> (firstVerifiedCreators q \<noteq> None \<and> verifiedCollectionAddresses q \<noteq> None)"
  shows "\<exists>ps. (\<forall>p \<in> set (butlast (mints # ps)). truthy (paginationToken p)) \<and>
     ((res = Inr (acc @ concat (map result ps))
         \<and> \<not> truthy (paginationToken (last (mints # ps)))
         \<and> calls w' = calls w @ later_calls q mints ps) \<or>
      (\<exists>a. truthy (paginationToken (last (mints # ps)))
         \<and> res = Inl (rethrow ''error during getMintlist: '' (Axios a))
         \<and> calls w' = calls w @ later_calls q mints ps @
              [PostMintlist (next_page q (token_text (paginationToken (last (mints # ps))))) (Inl a)]))"
  using assms
proof (induction r q mints acc w "(res, w')" arbitrary: res w'
    rule: drain_while.raw_induct[rotated 1, consumes 1])
  case (1 dw r q mints acc w)
  show ?case
  proof (cases "truthy (paginationToken mints)")
    case False
    then have "res = Inr acc" "w' = w"
      using "1.hyps"(2) by (auto split: js_token.splits if_splits)
    with False show ?thesis by (intro exI[of _ "[]"]) simp
  next
    case True
    then obtain t where t: "paginationToken mints = JString t" "t \<noteq> []"
      by (cases "paginationToken mints") auto
    let ?rq = "next_page q t"
    have q: "query ?rq = Some q" by (simp add: next_page_def)
    note gm = getMintlist_valid[OF "1.prems" q, of r w]
    obtain out s' where ps: "post_mintlist r ?rq (server w) = (out, s')" by force
    show ?thesis
    proof (cases out)
      case (Inl a)
      then have "res = Inl (rethrow ''error during getMintlist: '' (Axios a))"
        "w' = \<lparr>server = s', calls = calls w @ [PostMintlist ?rq (Inl a)]\<rparr>"
        using "1.hyps"(2) t gm ps by auto
      with True t show ?thesis by (intro exI[of _ "[]"]) simp
    next
      case (Inr m)
      let ?w1 = "\<lparr>server = s', calls = calls w @ [PostMintlist ?rq (Inr m)]\<rparr>"
      have "dw r q m (acc @ result m) ?w1 = Some (res, w')"
        using "1.hyps"(2) t gm ps Inr by auto
      from "1.hyps"(1)[OF this "1.prems"] obtain ps where
        ih: "\<forall>p \<in> set (butlast (m # ps)). truthy (paginationToken p)"
          "(res = Inr ((acc @ result m) @ concat (map result ps))
              \<and> \<not> truthy (paginationToken (last (m # ps)))
              \<and> calls w' = calls ?w1 @ later_calls q m ps) \<or>
           (\<exists>a. truthy (paginationToken (last (m # ps)))
              \<and> res = Inl (rethrow ''error during getMintlist: '' (Axios a))
              \<and> calls w' = calls ?w1 @ later_calls q m ps @
                   [PostMintlist (next_page q (token_text (paginationToken (last (m # ps))))) (Inl a)])"
        by blast
      show ?thesis
        using ih True t by (intro exI[of _ "m # ps"]) auto
    qed
  qed
qed

lemma drain_while_stop:
  "\<not> truthy (paginationToken mints) \<Longrightarrow> drain_while r q mints acc w = Some (Inr acc, w)"
  by (subst drain_while.simps) (auto split: js_token.splits)

lemma drain_while_step:
  "paginationToken mints = JString t \<Longrightarrow> t \<noteq> [] \<Longrightarrow>
   drain_while r q mints acc w =
     (case getMintlist r (Some (next_page q t)) w of
        (Inl err, w') \<Rightarrow> Some (Inl err, w')
      | (Inr mints', w') \<Rightarrow> drain_while r q mints' (acc @ result mints') w')"
  by (subst drain_while.simps) simp

lemma mintlist_pages_append:
  "mintlist_pages (xs @ ys) = mintlist_pages xs @ mintlist_pages ys"
  by (induction xs rule: mintlist_pages.induct) simp_all


lemma created_append:
  "created (xs @ ys) = created xs @ created ys"
  by (induction xs rule: created.induct) simp_all

lemma later_calls_read:
  "mintlist_pages (later_calls q prev ps) = ps"
  "failed_pages (later_calls q prev ps) = []"
  "created (later_calls q prev ps) = []"
  "length (later_calls q prev ps) = length ps"
  by (induction ps arbitrary: prev) simp_all

lemma drain_calls_read:
  "mintlist_pages (drain_calls q ps) = ps"
  "failed_pages (drain_calls q ps) = []"
  "created (drain_calls q ps) = []"
  "length (drain_calls q ps) = length ps"
  by (cases ps; simp add: later_calls_read)+


text \<open>A drain that returns: the pages it received, and how it ended.\<close>

lemma drain_run:
  assumes "drain r q w = Some (res, w')"
    and valid: "\<not> (firstVerifiedCreators q \<noteq> None \<and> verifiedCollectionAddresses q \<noteq> None)"
  shows "\<exists>ps.
     (ps \<noteq> [] \<and> res = Inr (concat (map result ps))
        \<and> (\<forall>p \<in> set (butlast ps). truthy (paginationToken p))
        \<and> \<not> truthy (paginationToken (last ps))
        \<and> calls w' = calls w @ drain_calls q ps) \<or>
     (\<exists>a. res = Inl (rethrow ''error during getMintlist: '' (Axios a))
        \<and> (\<forall>p \<in> set ps. truthy (paginationToken p))
        \<and> calls w' = calls w @ drain_calls q ps @ [PostMintlist (request_after q ps) (Inl a)])"
proof -
  have q: "query (first_page q) = Some q" by (simp add: first_page_def)
  note gm = getMintlist_valid [OF valid q, of r w]
  obtain out s' where ps: "post_mintlist r (first_page q) (server w) = (out, s')" by force
  show ?thesis
  proof (cases out)
    case (Inl a)
    then have "res = Inl (rethrow ''error during getMintlist: '' (Axios a))"
      "w' = \<lparr>server = s', calls = calls w @ [PostMintlist (first_page q) (Inl a)]\<rparr>"
      using assms(1) gm ps by (auto simp: drain_def)
    then show ?thesis by (intro exI[of _ "[]"]) auto
  next
    case (Inr m)
    let ?w1 = "\<lparr>server = s', calls = calls w @ [PostMintlist (first_page q) (Inr m)]\<rparr>"
    have "drain_while r q m (result m) ?w1 = Some (res, w')"
      using assms(1) gm ps Inr by (auto simp: drain_def)
    from drain_while_run [OF this valid] obtain ps where
      tr: "\<forall>p \<in> set (butlast (m # ps)). truthy (paginationToken p)"
      and alt: "(res = Inr (result m @ concat (map result ps))
              \<and> \<not> truthy (paginationToken (last (m # ps)))
              \<and> calls w' = calls ?w1 @ later_calls q m ps) \<or>
           (\<exists>a. truthy (paginationToken (last (m # ps)))
              \<and> res = Inl (rethrow ''error during getMintlist: '' (Axios a))
              \<and> calls w' = calls ?w1 @ later_calls q m ps @
                   [PostMintlist (next_page q (token_text (paginationToken (last (m # ps))))) (Inl a)])"
      by blast
    from alt show ?thesis
    proof
      assume "res = Inr (result m @ concat (map result ps))
              \<and> \<not> truthy (paginationToken (last (m # ps)))
              \<and> calls w' = calls ?w1 @ later_calls q m ps"
      with tr show ?thesis by (intro exI[of _ "m # ps"] disjI1) simp
    next
      assume "\<exists>a. truthy (paginationToken (last (m # ps)))
              \<and> res = Inl (rethrow ''error during getMintlist: '' (Axios a))
              \<and> calls w' = calls ?w1 @ later_calls q m ps @
                   [PostMintlist (next_page q (token_text (paginationToken (last (m # ps))))) (Inl a)]"
      then obtain a where a: "truthy (paginationToken (last (m # ps)))"
        "res = Inl (rethrow ''error during getMintlist: '' (Axios a))"
        "calls w' = calls ?w1 @ later_calls q m ps @
                   [PostMintlist (next_page q (token_text (paginationToken (last (m # ps))))) (Inl a)]"
        by blast
      have "\<forall>p \<in> set (m # ps). truthy (paginationToken p)"
      proof
        fix p assume "p \<in> set (m # ps)"
        then have "p \<in> set (butlast (m # ps)) \<or> p = last (m # ps)"
          by (metis append_butlast_last_id in_set_conv_decomp list.distinct(1) rotate1.simps(2) set_ConsD set_rotate1)
        with tr a(1) show "truthy (paginationToken p)" by blast
      qed
      with a show ?thesis by (intro exI[of _ "m # ps"] disjI2) auto
    qed
  qed
qed




text \<open>The first call of \<open>createCollectionWebhook\<close>'s \<open>try\<close> block is the request for the
  first page, and a run that returns ends in one of three ways.\<close>

lemma rethrow_prefix: "\<exists>m. rethrow prefix err = Error (prefix @ m)"
  by (cases err) (auto split: option.splits)

lemma createCollectionWebhook_try_run:
  assumes "createCollectionWebhook_try r request q w = Some (res, w')"
    and valid: "\<not> (firstVerifiedCreators q \<noteq> None \<and> verifiedCollectionAddresses q \<noteq> None)"
  shows "\<exists>ps.
     (\<exists>a m. res = Inl (Error (''error during createCollectionWebhook: '' @ m))
        \<and> calls w' = calls w @ drain_calls q ps @ [PostMintlist (request_after q ps) (Inl a)]) \<or>
     (\<exists>out. ps \<noteq> []
        \<and> \<not> truthy (paginationToken (last ps))
        \<and> calls w' = calls w @ drain_calls q ps @
             [PostWebhooks (payload request (concat (map result ps))) out]
        \<and> (case out of
              Inr data \<Rightarrow> res = Inr data
            | Inl a \<Rightarrow> (\<exists>m. res = Inl (Error (''error during createCollectionWebhook: '' @ m)))))"
proof -
  from assms(1) obtain dres w1 where d: "drain r q w = Some (dres, w1)"
    by (cases "drain r q w") (auto simp: createCollectionWebhook_try_def)
  from drain_run [OF d valid] obtain ps where
    alt: "(ps \<noteq> [] \<and> dres = Inr (concat (map result ps))
        \<and> (\<forall>p \<in> set (butlast ps). truthy (paginationToken p))
        \<and> \<not> truthy (paginationToken (last ps))
        \<and> calls w1 = calls w @ drain_calls q ps) \<or>
     (\<exists>a. dres = Inl (rethrow ''error during getMintlist: '' (Axios a))
        \<and> (\<forall>p \<in> set ps. truthy (paginationToken p))
        \<and> calls w1 = calls w @ drain_calls q ps @ [PostMintlist (request_after q ps) (Inl a)])"
    by blast
  from alt show ?thesis
  proof
    assume ok: "ps \<noteq> [] \<and> dres = Inr (concat (map result ps))
        \<and> (\<forall>p \<in> set (butlast ps). truthy (paginationToken p))
        \<and> \<not> truthy (paginationToken (last ps))
        \<and> calls w1 = calls w @ drain_calls q ps"
    let ?body = "payload request (concat (map result ps))"
    obtain out s2 where pw: "post_webhooks r ?body (server w1) = (out, s2)" by force
    have cw: "createWebhook r ?body w1 =
        (case out of Inr data \<Rightarrow> Inr data
         | Inl a \<Rightarrow> Inl (rethrow ''error during createWebhook: '' (Axios a)),
         \<lparr>server = s2, calls = calls w1 @ [PostWebhooks ?body out]\<rparr>)"
      using pw by (simp add: createWebhook_def axios_post_webhooks_def split: sum.splits)
    have "w' = \<lparr>server = s2, calls = calls w1 @ [PostWebhooks ?body out]\<rparr>"
      and "case out of Inr data \<Rightarrow> res = Inr data
           | Inl a \<Rightarrow> res = Inl (rethrow ''error during createCollectionWebhook: ''
                               (rethrow ''error during createWebhook: '' (Axios a)))"
      using assms(1) d ok cw by (auto simp: createCollectionWebhook_try_def split: sum.splits)
    moreover have "\<exists>m. rethrow ''error during createCollectionWebhook: '' e =
        Error (''error during createCollectionWebhook: '' @ m)" for e
      by (rule rethrow_prefix)
    ultimately have "calls w' = calls w @ drain_calls q ps @ [PostWebhooks ?body out]"
      and "case out of Inr data \<Rightarrow> res = Inr data
           | Inl a \<Rightarrow> (\<exists>m. res = Inl (Error (''error during createCollectionWebhook: '' @ m)))"
      using ok by (auto split: sum.splits)
    with ok show ?thesis by (intro exI[of _ ps] disjI2 exI[of _ out]) simp
  next
    assume "\<exists>a. dres = Inl (rethrow ''error during getMintlist: '' (Axios a))
        \<and> (\<forall>p \<in> set ps. truthy (paginationToken p))
        \<and> calls w1 = calls w @ drain_calls q ps @ [PostMintlist (request_after q ps) (Inl a)]"
    then obtain a where f: "dres = Inl (rethrow ''error during getMintlist: '' (Axios a))"
      "calls w1 = calls w @ drain_calls q ps @ [PostMintlist (request_after q ps) (Inl a)]"
      by blast
    have "w' = w1" "res = Inl (rethrow ''error during createCollectionWebhook: ''
                 (rethrow ''error during getMintlist: '' (Axios a)))"
      using assms(1) d f by (auto simp: createCollectionWebhook_try_def)
    moreover obtain m where "rethrow ''error during createCollectionWebhook: ''
                 (rethrow ''error during getMintlist: '' (Axios a)) =
          Error (''error during createCollectionWebhook: '' @ m)"
      using rethrow_prefix by blast
    ultimately show ?thesis using f(2) by (intro exI[of _ ps] disjI1) auto
  qed
qed

text \<open>\<open>createCollectionWebhook\<close> either fails in one of its two checks, with no call
  made, or runs its \<open>try\<close> block on a query that passes the check of \<open>getMintlist\<close>.\<close>

lemma createCollectionWebhook_cases:
  assumes "createCollectionWebhook r request w = Some (res, w')"
  shows "(w' = w \<and>
          (res = Inl (Error ''must provide collectionQuery object.'') \<or>
           res = Inl (Error (''cannot provide both firstVerifiedCreators and '' @
                  ''verifiedCollectionAddresses. Please only provide one.'')))) \<or>
         (\<exists>rq q. request = Some rq
            \<and> \<not> (firstVerifiedCreators q \<noteq> None \<and> verifiedCollectionAddresses q \<noteq> None)
            \<and> createCollectionWebhook_try r rq q w = Some (res, w'))"
proof (cases request)
  case None
  with assms show ?thesis by (simp add: createCollectionWebhook_def)
next
  case (Some rq)
  show ?thesis
  proof (cases "collectionQuery rq")
    case None
    with assms Some show ?thesis by (simp add: createCollectionWebhook_def)
  next
    case (Some cq)
    show ?thesis
    proof (cases "firstVerifiedCreators cq \<noteq> None \<and> verifiedCollectionAddresses cq \<noteq> None")
      case True
      with assms \<open>request = Some rq\<close> Some show ?thesis
        by (simp add: createCollectionWebhook_def)
    next
      case False
      let ?q = "if firstVerifiedCreators cq \<noteq> None
                    then \<lparr> firstVerifiedCreators = firstVerifiedCreators cq,
                           verifiedCollectionAddresses = None \<rparr>
                    else \<lparr> firstVerifiedCreators = None,
                           verifiedCollectionAddresses = verifiedCollectionAddresses cq \<rparr>"
      have "createCollectionWebhook_try r rq ?q w = Some (res, w')"
        using assms \<open>request = Some rq\<close> Some False
        by (auto simp: createCollectionWebhook_def Let_def split: if_splits)
      moreover have "\<not> (firstVerifiedCreators ?q \<noteq> None \<and> verifiedCollectionAddresses ?q \<noteq> None)"
        by simp
      ultimately show ?thesis using \<open>request = Some rq\<close> by blast
    qed
  qed
qed

text \<open>Two runs against the scripted service.\<close>

lemma three_pages_drain:
  "drain (scripted (held_webhook []) three_pages) by_collections \<lparr>server = 0, calls = []\<rparr> =
     Some (Inr (result page1 @ result page2 @ result page3),
           \<lparr>server = 3, calls = drain_calls by_collections [page1, page2, page3]\<rparr>)"
  by (simp add: drain_def drain_while_step drain_while_stop getMintlist_def
      axios_post_mintlist_def scripted_def three_pages_def by_collections_def first_page_def
      next_page_def page1_def page2_def page3_def)


lemma three_pages_run:
  "createCollectionWebhook (scripted (held_webhook []) three_pages)
     (Some (collection_request (Some by_collections))) \<lparr>server = 0, calls = []\<rparr> =
   Some (Inr (stored (payload (collection_request (Some by_collections))
                        (result page1 @ result page2 @ result page3))),
         \<lparr>server = 3,
          calls = drain_calls by_collections [page1, page2, page3] @
                  [PostWebhooks (payload (collection_request (Some by_collections))
                                   (result page1 @ result page2 @ result page3))
                     (Inr (stored (payload (collection_request (Some by_collections))
                                     (result page1 @ result page2 @ result page3))))]\<rparr>)"
proof -
  have "createCollectionWebhook (scripted (held_webhook []) three_pages)
     (Some (collection_request (Some by_collections))) \<lparr>server = 0, calls = []\<rparr> =
     createCollectionWebhook_try (scripted (held_webhook []) three_pages)
       (collection_request (Some by_collections)) by_collections \<lparr>server = 0, calls = []\<rparr>"
    by (simp add: createCollectionWebhook_def Let_def collection_request_def by_collections_def)
  moreover have "createWebhook (scripted (held_webhook []) three_pages) body W =
      (Inr (stored body),
       \<lparr>server = server W, calls = calls W @ [PostWebhooks body (Inr (stored body))]\<rparr>)"
    for body and W :: "nat world"
    by (simp add: createWebhook_def axios_post_webhooks_def scripted_def)
  ultimately show ?thesis
    by (simp add: createCollectionWebhook_try_def three_pages_drain)
qed


text \<open>Whatever the run, a create call carries the payload built from the pages received.\<close>

lemma created_is_payload:
  assumes "createCollectionWebhook r (Some rq) w = Some (res, w')"
    and "body \<in> set (created (drop (length (calls w)) (calls w')))"
  shows "body = payload rq (concat (map result (mintlist_pages (drop (length (calls w)) (calls w')))))"
proof -
  from createCollectionWebhook_cases [OF assms(1)] assms(2)
  obtain q where
    "\<not> (firstVerifiedCreators q \<noteq> None \<and> verifiedCollectionAddresses q \<noteq> None)"
    "createCollectionWebhook_try r rq q w = Some (res, w')"
    by auto
  from createCollectionWebhook_try_run [OF this(2,1)] obtain ps where
    alt: "(\<exists>a m. res = Inl (Error (''error during createCollectionWebhook: '' @ m))
        \<and> calls w' = calls w @ drain_calls q ps @ [PostMintlist (request_after q ps) (Inl a)]) \<or>
     (\<exists>out. ps \<noteq> []
        \<and> \<not> truthy (paginationToken (last ps))
        \<and> calls w' = calls w @ drain_calls q ps @
             [PostWebhooks (payload rq (concat (map result ps))) out]
        \<and> (case out of
              Inr data \<Rightarrow> res = Inr data
            | Inl a \<Rightarrow> (\<exists>m. res = Inl (Error (''error during createCollectionWebhook: '' @ m)))))"
    by blast
  from alt show ?thesis
  proof
    assume "\<exists>a m. res = Inl (Error (''error during createCollectionWebhook: '' @ m))
        \<and> calls w' = calls w @ drain_calls q ps @ [PostMintlist (request_after q ps) (Inl a)]"
    then have "created (drop (length (calls w)) (calls w')) = []"
      by (auto simp: created_append drain_calls_read)
    with assms(2) show ?thesis by simp
  next
    assume "\<exists>out. ps \<noteq> []
        \<and> \<not> truthy (paginationToken (last ps))
        \<and> calls w' = calls w @ drain_calls q ps @
             [PostWebhooks (payload rq (concat (map result ps))) out]
        \<and> (case out of
              Inr data \<Rightarrow> res = Inr data
            | Inl a \<Rightarrow> (\<exists>m. res = Inl (Error (''error during createCollectionWebhook: '' @ m))))"
    with assms(2) show ?thesis
      by (auto simp: created_append mintlist_pages_append drain_calls_read)
  qed
qed

lemma payload_ignores:
  "payload (rq\<lparr>accountAddresses := a, accountAddressOwners := b, txnStatus := c, encoding := d\<rparr>) ml
     = payload rq ml"
  by (simp add: payload_def)

lemma createCollectionWebhook_try_first_call:
  assumes "createCollectionWebhook_try r rq q w = Some (res, w')"
    and valid: "\<not> (firstVerifiedCreators q \<noteq> None \<and> verifiedCollectionAddresses q \<noteq> None)"
  shows "\<exists>out rest. calls w' = calls w @ PostMintlist (first_page q) out # rest"
proof -
  from createCollectionWebhook_try_run [OF assms] obtain ps where
    alt: "(\<exists>a m. res = Inl (Error (''error during createCollectionWebhook: '' @ m))
        \<and> calls w' = calls w @ drain_calls q ps @ [PostMintlist (request_after q ps) (Inl a)]) \<or>
     (\<exists>out. ps \<noteq> []
        \<and> \<not> truthy (paginationToken (last ps))
        \<and> calls w' = calls w @ drain_calls q ps @
             [PostWebhooks (payload rq (concat (map result ps))) out]
        \<and> (case out of
              Inr data \<Rightarrow> res = Inr data
            | Inl a \<Rightarrow> (\<exists>m. res = Inl (Error (''error during createCollectionWebhook: '' @ m)))))"
    by blast
  then show ?thesis
    by (cases ps) auto
qed

section \<open>The edit merger\<close>

text \<open>
  C3. For every existing webhook and every partial edit request, \<open>_editWebhook\<close>
  issues one \<open>PUT\<close> whose body is the merged request, and in that body each of the
  eight caller-mutable fields (webhookURL, transactionTypes, accountAddresses,
  accountAddressOwners, webhookType, authHeader, txnStatus, encoding) is the caller's
  value when the caller provided one and the existing webhook's current value
  otherwise; the three fields a webhook always has are always present.
\<close>

theorem edit_merge_fallback:
  "calls (snd (editWebhook_private r wid existing edit w)) =
     calls w @ [PutWebhook wid (editRequest existing edit)
                  (fst (put_webhook r wid (editRequest existing edit) (server w)))]
   \<and> EditWebhookRequest.webhookURL (editRequest existing edit) =
       Some (case EditWebhookRequest.webhookURL edit of Some v \<Rightarrow> v | None \<Rightarrow> webhookURL existing)
   \<and> EditWebhookRequest.transactionTypes (editRequest existing edit) =
       Some (case EditWebhookRequest.transactionTypes edit of Some v \<Rightarrow> v
             | None \<Rightarrow> transactionTypes existing)
   \<and> EditWebhookRequest.accountAddresses (editRequest existing edit) =
       Some (case EditWebhookRequest.accountAddresses edit of Some v \<Rightarrow> v
             | None \<Rightarrow> accountAddresses existing)
   \<and> EditWebhookRequest.accountAddressOwners (editRequest existing edit) =
       (case EditWebhookRequest.accountAddressOwners edit of Some v \<Rightarrow> Some v
        | None \<Rightarrow> accountAddressOwners existing)
   \<and> EditWebhookRequest.webhookType (editRequest existing edit) =
       (case EditWebhookRequest.webhookType edit of Some v \<Rightarrow> Some v
        | None \<Rightarrow> webhookType existing)
   \<and> EditWebhookRequest.authHeader (editRequest existing edit) =
       (case EditWebhookRequest.authHeader edit of Some v \<Rightarrow> Some v
        | None \<Rightarrow> authHeader existing)
   \<and> EditWebhookRequest.txnStatus (editRequest existing edit) =
       (case EditWebhookRequest.txnStatus edit of Some v \<Rightarrow> Some v
        | None \<Rightarrow> txnStatus existing)
   \<and> EditWebhookRequest.encoding (editRequest existing edit) =
       (case EditWebhookRequest.encoding edit of Some v \<Rightarrow> Some v
        | None \<Rightarrow> encoding existing)"
proof -
  have "calls (snd (editWebhook_private r wid existing edit w)) =
     calls w @ [PutWebhook wid (editRequest existing edit)
                  (fst (put_webhook r wid (editRequest existing edit) (server w)))]"
    by (simp add: editWebhook_private_def axios_put_webhook_def split: prod.splits sum.splits)
  moreover have "EditWebhookRequest.webhookURL (editRequest existing edit) =
       Some (case EditWebhookRequest.webhookURL edit of Some v \<Rightarrow> v | None \<Rightarrow> webhookURL existing)"
    "EditWebhookRequest.transactionTypes (editRequest existing edit) =
       Some (case EditWebhookRequest.transactionTypes edit of Some v \<Rightarrow> v
             | None \<Rightarrow> transactionTypes existing)"
    "EditWebhookRequest.accountAddresses (editRequest existing edit) =
       Some (case EditWebhookRequest.accountAddresses edit of Some v \<Rightarrow> v
             | None \<Rightarrow> accountAddresses existing)"
    by (simp_all add: editRequest_def split: option.splits)
  moreover have "EditWebhookRequest.accountAddressOwners (editRequest existing edit) =
       (case EditWebhookRequest.accountAddressOwners edit of Some v \<Rightarrow> Some v
        | None \<Rightarrow> accountAddressOwners existing)"
    "EditWebhookRequest.webhookType (editRequest existing edit) =
       (case EditWebhookRequest.webhookType edit of Some v \<Rightarrow> Some v
        | None \<Rightarrow> webhookType existing)"
    "EditWebhookRequest.authHeader (editRequest existing edit) =
       (case EditWebhookRequest.authHeader edit of Some v \<Rightarrow> Some v
        | None \<Rightarrow> authHeader existing)"
    "EditWebhookRequest.txnStatus (editRequest existing edit) =
       (case EditWebhookRequest.txnStatus edit of Some v \<Rightarrow> Some v
        | None \<Rightarrow> txnStatus existing)"
    "EditWebhookRequest.encoding (editRequest existing edit) =
       (case EditWebhookRequest.encoding edit of Some v \<Rightarrow> Some v
        | None \<Rightarrow> encoding existing)"
    by (simp_all add: editRequest_def)
  ultimately show ?thesis by blast
qed

text \<open>The merge of the existing webhook \<open>{url: A, types: [T1]}\<close> with the partial
  edit \<open>{types: [T2]}\<close> is \<open>{url: A, types: [T2]}\<close>.\<close>

theorem edit_merge_fallback_witness:
  "EditWebhookRequest.webhookURL
     (editRequest (held_webhook [''x''])
        ((only_addresses [])\<lparr> EditWebhookRequest.transactionTypes := Some [''T2''],
                               EditWebhookRequest.accountAddresses := None \<rparr>)) = Some ''A''
   \<and> EditWebhookRequest.transactionTypes
     (editRequest (held_webhook [''x''])
        ((only_addresses [])\<lparr> EditWebhookRequest.transactionTypes := Some [''T2''],
                               EditWebhookRequest.accountAddresses := None \<rparr>)) = Some [''T2'']
   \<and> EditWebhookRequest.accountAddresses
     (editRequest (held_webhook [''x''])
        ((only_addresses [])\<lparr> EditWebhookRequest.transactionTypes := Some [''T2''],
                               EditWebhookRequest.accountAddresses := None \<rparr>)) = Some [''x'']
   \<and> EditWebhookRequest.webhookType
     (editRequest (held_webhook [''x''])
        ((only_addresses [])\<lparr> EditWebhookRequest.transactionTypes := Some [''T2''],
                               EditWebhookRequest.accountAddresses := None \<rparr>)) = Some ''enhanced''"
  using edit_merge_fallback [of "scripted (held_webhook []) []" "''id''" "held_webhook [''x'']"
      "(only_addresses [])\<lparr> EditWebhookRequest.transactionTypes := Some [''T2''],
                             EditWebhookRequest.accountAddresses := None \<rparr>"
      "\<lparr>server = 0, calls = []\<rparr>"]
  by (simp add: held_webhook_def only_addresses_def)

section \<open>Tokens that end the loop\<close>

text \<open>
  C9. In the loop of \<open>createCollectionWebhook\<close>, a page whose paginationToken is
  \<open>undefined\<close>, \<open>null\<close> or the empty string ends the loop: no further page
  request is issued (the world, with its trace of calls, is unchanged) and the items
  accumulated so far are the result. The empty string behaves as an absent token.
\<close>

theorem falsy_token_ends_drain:
  "paginationToken mints \<in> {JUndefined, JNull, JString []}
     \<Longrightarrow> drain_while r q mints mintlist w = Some (Inr mintlist, w)"
  by (subst drain_while.simps) auto


theorem falsy_token_ends_drain_witness:
  "paginationToken \<lparr>result = [], paginationToken = JString []\<rparr> \<in> {JUndefined, JNull, JString []}
   \<and> drain_while (scripted (held_webhook []) [])
       \<lparr>firstVerifiedCreators = Some [''c''], verifiedCollectionAddresses = None\<rparr>
       \<lparr>result = [], paginationToken = JString []\<rparr>
       [\<lparr>mint = ''m1'', name = ''n1''\<rparr>] \<lparr>server = 1, calls = []\<rparr>
     = Some (Inr [\<lparr>mint = ''m1'', name = ''n1''\<rparr>], \<lparr>server = 1, calls = []\<rparr>)"
  using falsy_token_ends_drain [of "\<lparr>result = [], paginationToken = JString []\<rparr>"
     "scripted (held_webhook []) []"
     "\<lparr>firstVerifiedCreators = Some [''c''], verifiedCollectionAddresses = None\<rparr>"
     "[\<lparr>mint = ''m1'', name = ''n1''\<rparr>]" "\<lparr>server = 1, calls = []\<rparr>"]
  by simp

section \<open>Appending and removing addresses\<close>

lemma getWebhookByID_ok:
  "get_webhook r wid (server w) = (Inr webhook, s1) \<Longrightarrow>
   getWebhookByID r wid w = (Inr webhook, \<lparr>server = s1, calls = calls w @ [GetWebhook wid (Inr webhook)]\<rparr>)"
  by (simp add: getWebhookByID_def axios_get_webhook_def)

lemma editWebhook_private_run:
  "put_webhook r wid (editRequest existing edit) (server w) = (out, s2) \<Longrightarrow>
   editWebhook_private r wid existing edit w =
     (case out of Inr d \<Rightarrow> Inr d | Inl e \<Rightarrow> Inl (Axios e),
      \<lparr>server = s2, calls = calls w @ [PutWebhook wid (editRequest existing edit) out]\<rparr>)"
  by (simp add: editWebhook_private_def axios_put_webhook_def split: sum.splits)

lemma editRequest_only_addresses:
  "editRequest webhook (only_addresses xs) =
     \<lparr> EditWebhookRequest.webhookURL = Some (webhookURL webhook),
       EditWebhookRequest.transactionTypes = Some (transactionTypes webhook),
       EditWebhookRequest.accountAddresses = Some xs,
       EditWebhookRequest.accountAddressOwners = accountAddressOwners webhook,
       EditWebhookRequest.webhookType = webhookType webhook,
       EditWebhookRequest.authHeader = authHeader webhook,
       EditWebhookRequest.txnStatus = txnStatus webhook,
       EditWebhookRequest.encoding = encoding webhook \<rparr>"
  by (simp add: editRequest_def only_addresses_def)

text \<open>
  C2. When the webhook has been fetched, \<open>appendAddressesToWebhook\<close> looks at the
  length of the existing addresses followed by the new ones. Above 100,000 it fails
  with the capacity error (as rethrown by its catch block) after the read alone: no
  \<open>PUT\<close> is issued. Otherwise, at exactly 100,000 too, it issues one \<open>PUT\<close> whose
  address list is the existing list followed by the additions, in that order and
  with nothing removed, and its outcome is the outcome of that write.
\<close>

theorem append_capacity:
  assumes "get_webhook r wid (server w) = (Inr webhook, s1)"
  shows "if length (accountAddresses webhook @ newAccountAddresses) > 100000
     then appendAddressesToWebhook r wid newAccountAddresses w =
            (Inl (Error (''error during appendAddressesToWebhook: Error: '' @
                         ''a single webhook cannot contain more than 100,000 addresses'')),
             \<lparr>server = s1, calls = calls w @ [GetWebhook wid (Inr webhook)]\<rparr>)
          \<and> written (calls (snd (appendAddressesToWebhook r wid newAccountAddresses w))) =
              written (calls w)
     else (\<exists>out s2 body.
            put_webhook r wid body s1 = (out, s2)
          \<and> body = editRequest webhook (only_addresses (accountAddresses webhook @ newAccountAddresses))
          \<and> EditWebhookRequest.accountAddresses body =
               Some (accountAddresses webhook @ newAccountAddresses)
          \<and> appendAddressesToWebhook r wid newAccountAddresses w =
              (case out of Inr d \<Rightarrow> Inr d | Inl e \<Rightarrow> Inl (Axios e),
               \<lparr>server = s2,
                calls = calls w @ [GetWebhook wid (Inr webhook), PutWebhook wid body out]\<rparr>))"
proof (cases "length (accountAddresses webhook @ newAccountAddresses) > 100000")
  case True
  have *: "appendAddressesToWebhook r wid newAccountAddresses w =
            (Inl (Error (''error during appendAddressesToWebhook: Error: '' @
                         ''a single webhook cannot contain more than 100,000 addresses'')),
             \<lparr>server = s1, calls = calls w @ [GetWebhook wid (Inr webhook)]\<rparr>)"
    using True by (simp add: appendAddressesToWebhook_def getWebhookByID_ok[OF assms])
  have "written (cs @ [GetWebhook wid (Inr webhook)]) = written cs" for cs
    by (induction cs rule: written.induct) simp_all
  with * True show ?thesis by simp
next
  case False
  let ?body = "editRequest webhook (only_addresses (accountAddresses webhook @ newAccountAddresses))"
  obtain out s2 where put: "put_webhook r wid ?body s1 = (out, s2)" by force
  have "appendAddressesToWebhook r wid newAccountAddresses w =
              (case out of Inr d \<Rightarrow> Inr d | Inl e \<Rightarrow> Inl (Axios e),
               \<lparr>server = s2,
                calls = calls w @ [GetWebhook wid (Inr webhook), PutWebhook wid ?body out]\<rparr>)"
    using False put
    by (simp add: appendAddressesToWebhook_def getWebhookByID_ok[OF assms] Let_def
        editWebhook_private_run)
  moreover have "EditWebhookRequest.accountAddresses ?body =
               Some (accountAddresses webhook @ newAccountAddresses)"
    by (simp add: editRequest_only_addresses)
  ultimately show ?thesis using False put by simp
qed


text \<open>With 99,995 existing addresses, 10 more are refused before any write and 5 more
  are written after the existing ones.\<close>

theorem append_capacity_witness:
  "get_webhook (scripted (held_webhook (replicate 99995 ''a'')) []) ''id'' 0 =
     (Inr (held_webhook (replicate 99995 ''a'')), 0)
   \<and> appendAddressesToWebhook (scripted (held_webhook (replicate 99995 ''a'')) []) ''id''
       (replicate 10 ''b'') \<lparr>server = 0, calls = []\<rparr> =
       (Inl (Error (''error during appendAddressesToWebhook: Error: '' @
                    ''a single webhook cannot contain more than 100,000 addresses'')),
        \<lparr>server = 0, calls = [GetWebhook ''id'' (Inr (held_webhook (replicate 99995 ''a'')))]\<rparr>)
   \<and> appendAddressesToWebhook (scripted (held_webhook (replicate 99995 ''a'')) []) ''id''
       (replicate 5 ''b'') \<lparr>server = 0, calls = []\<rparr> =
       (Inr (held_webhook (replicate 99995 ''a'')),
        \<lparr>server = 0,
         calls = [GetWebhook ''id'' (Inr (held_webhook (replicate 99995 ''a''))),
                  PutWebhook ''id''
                    (editRequest (held_webhook (replicate 99995 ''a''))
                       (only_addresses (replicate 99995 ''a'' @ replicate 5 ''b'')))
                    (Inr (held_webhook (replicate 99995 ''a'')))]\<rparr>)"
  using append_capacity [of "scripted (held_webhook (replicate 99995 ''a'')) []" "''id''"
      "\<lparr>server = 0, calls = []\<rparr>" "held_webhook (replicate 99995 ''a'')" 0 "replicate 10 ''b''"]
    append_capacity [of "scripted (held_webhook (replicate 99995 ''a'')) []" "''id''"
      "\<lparr>server = 0, calls = []\<rparr>" "held_webhook (replicate 99995 ''a'')" 0 "replicate 5 ''b''"]
  by (simp add: scripted_def held_webhook_def)


text \<open>
  C6. When the webhook has been fetched, \<open>removeAddressesFromWebhook\<close> writes the
  existing addresses without those that occur in the removal list and raises no
  error of its own, whether or not the addresses to remove are there. So a removal
  list disjoint from the existing addresses leaves them unchanged, one that covers
  them all leaves none, and removing the same addresses again from a webhook
  holding the result writes that same result.
\<close>

theorem remove_filters:
  fixes r :: "'s remote"
  assumes "get_webhook r wid (server w) = (Inr webhook, s1)"
  shows "let kept = filter (\<lambda>address. address \<notin> set addressesToRemove) (accountAddresses webhook);
             body = editRequest webhook (only_addresses kept);
             answer = put_webhook r wid body s1
         in EditWebhookRequest.accountAddresses body = Some kept
          \<and> removeAddressesFromWebhook r wid addressesToRemove w =
              (case fst answer of Inr d \<Rightarrow> Inr d | Inl e \<Rightarrow> Inl (Axios e),
               \<lparr>server = snd answer,
                calls = calls w @ [GetWebhook wid (Inr webhook), PutWebhook wid body (fst answer)]\<rparr>)
          \<and> (set addressesToRemove \<inter> set (accountAddresses webhook) = {}
               \<longrightarrow> kept = accountAddresses webhook)
          \<and> (set (accountAddresses webhook) \<subseteq> set addressesToRemove \<longrightarrow> kept = [])
          \<and> (\<forall>(r2 :: 's remote) w2 webhook2 s3.
               get_webhook r2 wid (server w2) = (Inr webhook2, s3)
                 \<and> accountAddresses webhook2 = kept
               \<longrightarrow> written (calls (snd (removeAddressesFromWebhook r2 wid addressesToRemove w2))) =
                     written (calls w2) @ [editRequest webhook2 (only_addresses kept)])"
proof -
  have run: "removeAddressesFromWebhook r' wid addressesToRemove w' =
         (case fst (put_webhook r' wid (editRequest wh (only_addresses
                (filter (\<lambda>address. address \<notin> set addressesToRemove) (accountAddresses wh)))) s1')
          of Inr d \<Rightarrow> Inr d | Inl e \<Rightarrow> Inl (Axios e),
          \<lparr>server = snd (put_webhook r' wid (editRequest wh (only_addresses
                (filter (\<lambda>address. address \<notin> set addressesToRemove) (accountAddresses wh)))) s1'),
           calls = calls w' @ [GetWebhook wid (Inr wh),
             PutWebhook wid (editRequest wh (only_addresses
                (filter (\<lambda>address. address \<notin> set addressesToRemove) (accountAddresses wh))))
              (fst (put_webhook r' wid (editRequest wh (only_addresses
                (filter (\<lambda>address. address \<notin> set addressesToRemove) (accountAddresses wh)))) s1'))]\<rparr>)"
    if "get_webhook r' wid (server w') = (Inr wh, s1')"
    for r' :: "'s remote" and w' wh s1'
    using that
    by (simp add: removeAddressesFromWebhook_def getWebhookByID_ok Let_def
        editWebhook_private_run [OF surjective_pairing])
  have wr: "written (cs @ [GetWebhook wid g, PutWebhook wid b out]) = written cs @ [b]" for cs g b out
    by (induction cs rule: written.induct) simp_all
  let ?kept = "filter (\<lambda>address. address \<notin> set addressesToRemove) (accountAddresses webhook)"
  let ?body = "editRequest webhook (only_addresses ?kept)"
  have a: "EditWebhookRequest.accountAddresses ?body = Some ?kept"
    by (simp add: editRequest_only_addresses)
  have b: "set addressesToRemove \<inter> set (accountAddresses webhook) = {}
          \<longrightarrow> ?kept = accountAddresses webhook"
    by (auto simp: filter_id_conv)
  have c: "set (accountAddresses webhook) \<subseteq> set addressesToRemove \<longrightarrow> ?kept = []"
    by (auto simp: filter_empty_conv)
  have d: "written (calls (snd (removeAddressesFromWebhook r2 wid addressesToRemove w2))) =
                written (calls w2) @ [editRequest webhook2 (only_addresses ?kept)]"
    if g: "get_webhook r2 wid (server w2) = (Inr webhook2, s3)" and e: "accountAddresses webhook2 = ?kept"
    for r2 :: "'s remote" and w2 webhook2 s3
    by (simp add: run [OF g] wr e)
  have e: "\<forall>(r2 :: 's remote) w2 webhook2 s3.
          get_webhook r2 wid (server w2) = (Inr webhook2, s3) \<and> accountAddresses webhook2 = ?kept
          \<longrightarrow> written (calls (snd (removeAddressesFromWebhook r2 wid addressesToRemove w2))) =
                written (calls w2) @ [editRequest webhook2 (only_addresses ?kept)]"
  proof (intro allI impI, elim conjE)
    fix r2 :: "'s remote" and w2 :: "'s world" and webhook2 s3
    assume "get_webhook r2 wid (server w2) = (Inr webhook2, s3)"
      "accountAddresses webhook2 = ?kept"
    then show "written (calls (snd (removeAddressesFromWebhook r2 wid addressesToRemove w2))) =
                written (calls w2) @ [editRequest webhook2 (only_addresses ?kept)]"
      by (rule d)
  qed
  show ?thesis
    unfolding Let_def by (intro conjI a run [OF assms] b c e)
qed

text \<open>Removing \<open>x\<close> and the absent \<open>z\<close> from \<open>[x, y, x]\<close> writes \<open>[y]\<close>.\<close>

theorem remove_filters_witness:
  "get_webhook (scripted (held_webhook [''x'', ''y'', ''x'']) []) ''id'' 0 =
     (Inr (held_webhook [''x'', ''y'', ''x'']), 0)
   \<and> removeAddressesFromWebhook (scripted (held_webhook [''x'', ''y'', ''x'']) []) ''id''
       [''x'', ''z''] \<lparr>server = 0, calls = []\<rparr> =
       (Inr (held_webhook [''x'', ''y'', ''x'']),
        \<lparr>server = 0,
         calls = [GetWebhook ''id'' (Inr (held_webhook [''x'', ''y'', ''x''])),
                  PutWebhook ''id''
                    (editRequest (held_webhook [''x'', ''y'', ''x'']) (only_addresses [''y'']))
                    (Inr (held_webhook [''x'', ''y'', ''x'']))]\<rparr>)"
proof -
  let ?H = "held_webhook [''x'', ''y'', ''x'']"
  let ?R = "scripted ?H []"
  have g: "get_webhook ?R ''id'' (server \<lparr>server = 0, calls = []\<rparr>) = (Inr ?H, 0)"
    by (simp add: scripted_def)
  have p: "put_webhook ?R ''id'' body 0 = (Inr ?H, 0)" for body
    by (simp add: scripted_def)
  have k: "filter (\<lambda>address. address \<notin> set [''x'', ''z'']) (accountAddresses ?H) = [''y'']"
    by (simp add: held_webhook_def)
  from remove_filters [OF g, of "[''x'', ''z'']"] have
    "removeAddressesFromWebhook ?R ''id'' [''x'', ''z''] \<lparr>server = 0, calls = []\<rparr> =
         (Inr ?H, \<lparr>server = 0, calls = [GetWebhook ''id'' (Inr ?H),
             PutWebhook ''id'' (editRequest ?H (only_addresses [''y''])) (Inr ?H)]\<rparr>)"
    unfolding Let_def k p by simp
  with g show ?thesis by simp
qed


section \<open>Draining the pages\<close>



section \<open>A failing page request\<close>




section \<open>The create payload\<close>



text \<open>
  C10. \<open>createCollectionWebhook\<close> does not read the accountAddresses,
  accountAddressOwners, txnStatus and encoding of its request: changing them changes
  nothing, and every create payload it submits has the drained mint addresses, the
  request's webhookURL and transactionTypes, no accountAddressOwners, txnStatus or
  encoding, and for authHeader and webhookType either nothing or the request's value.
\<close>

theorem ignored_request_fields:
  assumes "createCollectionWebhook r (Some rq) w = Some (res, w')"
  shows "createCollectionWebhook r
           (Some (rq\<lparr>accountAddresses := a, accountAddressOwners := b,
                      txnStatus := c, encoding := d\<rparr>)) w
         = createCollectionWebhook r (Some rq) w
       \<and> (\<forall>body \<in> set (created (drop (length (calls w)) (calls w'))).
            accountAddresses body =
              map mint (concat (map result (mintlist_pages (drop (length (calls w)) (calls w')))))
          \<and> accountAddressOwners body = None
          \<and> txnStatus body = None
          \<and> encoding body = None
          \<and> webhookURL body = webhookURL rq
          \<and> transactionTypes body = transactionTypes rq
          \<and> authHeader body \<in> {None, authHeader rq}
          \<and> webhookType body \<in> {None, webhookType rq})"
proof -
  have "createCollectionWebhook_try r
           (rq\<lparr>accountAddresses := a, accountAddressOwners := b, txnStatus := c, encoding := d\<rparr>) q w
        = createCollectionWebhook_try r rq q w" for q
    unfolding createCollectionWebhook_try_def payload_ignores by (rule refl)
  then have "createCollectionWebhook r
           (Some (rq\<lparr>accountAddresses := a, accountAddressOwners := b,
                      txnStatus := c, encoding := d\<rparr>)) w
         = createCollectionWebhook r (Some rq) w"
    by (simp add: createCollectionWebhook_def Let_def split: option.splits)
  moreover have "accountAddresses body =
              map mint (concat (map result (mintlist_pages (drop (length (calls w)) (calls w')))))
          \<and> accountAddressOwners body = None
          \<and> txnStatus body = None
          \<and> encoding body = None
          \<and> webhookURL body = webhookURL rq
          \<and> transactionTypes body = transactionTypes rq
          \<and> authHeader body \<in> {None, authHeader rq}
          \<and> webhookType body \<in> {None, webhookType rq}"
    if "body \<in> set (created (drop (length (calls w)) (calls w')))" for body
    unfolding created_is_payload [OF assms that]
    by (simp add: payload_def split: option.splits)
  ultimately show ?thesis by blast
qed

text \<open>The request of the three-page run sets all four fields; none reaches the payload.\<close>

theorem ignored_request_fields_witness:
  "createCollectionWebhook (scripted (held_webhook []) three_pages)
     (Some (collection_request (Some by_collections))) \<lparr>server = 0, calls = []\<rparr> =
   Some (Inr (stored (payload (collection_request (Some by_collections))
                        (result page1 @ result page2 @ result page3))),
         \<lparr>server = 3,
          calls = drain_calls by_collections [page1, page2, page3] @
                  [PostWebhooks (payload (collection_request (Some by_collections))
                                   (result page1 @ result page2 @ result page3))
                     (Inr (stored (payload (collection_request (Some by_collections))
                                     (result page1 @ result page2 @ result page3))))]\<rparr>)
   \<and> accountAddresses (collection_request (Some by_collections)) = [''given'']
   \<and> accountAddressOwners (collection_request (Some by_collections)) = Some [''owner'']
   \<and> txnStatus (collection_request (Some by_collections)) = Some ''all''
   \<and> encoding (collection_request (Some by_collections)) = Some ''jsonParsed''
   \<and> accountAddresses (payload (collection_request (Some by_collections))
                         (result page1 @ result page2 @ result page3)) =
       [''m1'', ''m2'', ''m3'', ''m4'']
   \<and> accountAddressOwners (payload (collection_request (Some by_collections))
                         (result page1 @ result page2 @ result page3)) = None
   \<and> txnStatus (payload (collection_request (Some by_collections))
                         (result page1 @ result page2 @ result page3)) = None
   \<and> encoding (payload (collection_request (Some by_collections))
                         (result page1 @ result page2 @ result page3)) = None
   \<and> createCollectionWebhook (scripted (held_webhook []) three_pages)
       (Some ((collection_request (Some by_collections))
          \<lparr>accountAddresses := [], accountAddressOwners := None,
           txnStatus := None, encoding := None\<rparr>)) \<lparr>server = 0, calls = []\<rparr> =
      createCollectionWebhook (scripted (held_webhook []) three_pages)
       (Some (collection_request (Some by_collections))) \<lparr>server = 0, calls = []\<rparr>"
proof -
  note t = ignored_request_fields [OF three_pages_run, where a = "[]" and b = None and c = None and d = None]
  have "accountAddresses (collection_request (Some by_collections)) = [''given'']"
    "accountAddressOwners (collection_request (Some by_collections)) = Some [''owner'']"
    "txnStatus (collection_request (Some by_collections)) = Some ''all''"
    "encoding (collection_request (Some by_collections)) = Some ''jsonParsed''"
    by (simp_all add: collection_request_def)
  moreover from t have "accountAddresses (payload (collection_request (Some by_collections))
                         (result page1 @ result page2 @ result page3)) =
       [''m1'', ''m2'', ''m3'', ''m4'']"
    "accountAddressOwners (payload (collection_request (Some by_collections))
                         (result page1 @ result page2 @ result page3)) = None"
    "txnStatus (payload (collection_request (Some by_collections))
                         (result page1 @ result page2 @ result page3)) = None"
    "encoding (payload (collection_request (Some by_collections))
                         (result page1 @ result page2 @ result page3)) = None"
    by (simp_all add: created_append mintlist_pages_append drain_calls_read
        page1_def page2_def page3_def)
  ultimately show ?thesis using t three_pages_run by simp
qed


section \<open>Validating the query\<close>

text \<open>
  C5. \<open>createCollectionWebhook\<close> and \<open>getMintlist\<close> fail in validation, that is
  with an error and before any call to the service, exactly when the request or its
  query object is missing or both firstVerifiedCreators and
  verifiedCollectionAddresses are set. In every other case they proceed: the next
  thing \<open>getMintlist\<close> does is the page request, and every run of
  \<open>createCollectionWebhook\<close> that returns starts with the request for the first page.
\<close>

theorem validation_iff:
  "((\<exists>e. createCollectionWebhook r request w = Some (Inl e, w)) \<longleftrightarrow>
      (case request of
         None \<Rightarrow> True
       | Some rq \<Rightarrow>
           (case collectionQuery rq of
              None \<Rightarrow> True
            | Some cq \<Rightarrow> firstVerifiedCreators cq \<noteq> None \<and> verifiedCollectionAddresses cq \<noteq> None)))
   \<and> ((\<exists>e. getMintlist r mrequest w = (Inl e, w)) \<longleftrightarrow>
      (case mrequest of
         None \<Rightarrow> True
       | Some mrq \<Rightarrow>
           (case query mrq of
              None \<Rightarrow> True
            | Some q \<Rightarrow> firstVerifiedCreators q \<noteq> None \<and> verifiedCollectionAddresses q \<noteq> None)))
   \<and> (\<forall>rq cq res w'.
         request = Some rq \<and> collectionQuery rq = Some cq
         \<and> \<not> (firstVerifiedCreators cq \<noteq> None \<and> verifiedCollectionAddresses cq \<noteq> None)
         \<and> createCollectionWebhook r request w = Some (res, w')
         \<longrightarrow> (\<exists>out rest. calls w' = calls w @
                PostMintlist (first_page
                  (if firstVerifiedCreators cq \<noteq> None
                   then \<lparr> firstVerifiedCreators = firstVerifiedCreators cq,
                          verifiedCollectionAddresses = None \<rparr>
                   else \<lparr> firstVerifiedCreators = None,
                          verifiedCollectionAddresses = verifiedCollectionAddresses cq \<rparr>)) out # rest))
   \<and> (\<forall>mrq q.
         mrequest = Some mrq \<and> query mrq = Some q
         \<and> \<not> (firstVerifiedCreators q \<noteq> None \<and> verifiedCollectionAddresses q \<noteq> None)
         \<longrightarrow> calls (snd (getMintlist r mrequest w)) =
               calls w @ [PostMintlist mrq (fst (post_mintlist r mrq (server w)))])"
proof -
  let ?chosen = "\<lambda>cq. if firstVerifiedCreators cq \<noteq> None
                   then \<lparr> firstVerifiedCreators = firstVerifiedCreators cq,
                          verifiedCollectionAddresses = None \<rparr>
                   else \<lparr> firstVerifiedCreators = None,
                          verifiedCollectionAddresses = verifiedCollectionAddresses cq \<rparr>"
  have proceed: "\<exists>out rest. calls w' = calls w @ PostMintlist (first_page (?chosen cq)) out # rest"
    if "request = Some rq" "collectionQuery rq = Some cq"
      "\<not> (firstVerifiedCreators cq \<noteq> None \<and> verifiedCollectionAddresses cq \<noteq> None)"
      "createCollectionWebhook r request w = Some (res, w')"
    for rq cq res w'
  proof -
    have "createCollectionWebhook_try r rq (?chosen cq) w = Some (res, w')"
      using that by (auto simp: createCollectionWebhook_def Let_def split: if_splits)
    moreover have "\<not> (firstVerifiedCreators (?chosen cq) \<noteq> None
        \<and> verifiedCollectionAddresses (?chosen cq) \<noteq> None)"
      by simp
    ultimately show ?thesis by (rule createCollectionWebhook_try_first_call)
  qed
  have a: "(\<exists>e. createCollectionWebhook r request w = Some (Inl e, w)) \<longleftrightarrow>
      (case request of
         None \<Rightarrow> True
       | Some rq \<Rightarrow>
           (case collectionQuery rq of
              None \<Rightarrow> True
            | Some cq \<Rightarrow> firstVerifiedCreators cq \<noteq> None \<and> verifiedCollectionAddresses cq \<noteq> None))"
  proof (cases request)
    case None
    then show ?thesis by (simp add: createCollectionWebhook_def)
  next
    case (Some rq)
    show ?thesis
    proof (cases "collectionQuery rq")
      case None
      with Some show ?thesis by (simp add: createCollectionWebhook_def)
    next
      case cq: (Some cq)
      show ?thesis
      proof (cases "firstVerifiedCreators cq \<noteq> None \<and> verifiedCollectionAddresses cq \<noteq> None")
        case True
        with Some cq show ?thesis by (simp add: createCollectionWebhook_def)
      next
        case False
        have "createCollectionWebhook r request w \<noteq> Some (Inl e, w)" for e
        proof
          assume "createCollectionWebhook r request w = Some (Inl e, w)"
          from proceed [OF Some cq False this] show False by simp
        qed
        with Some cq False show ?thesis by simp
      qed
    qed
  qed
  have d: "calls (snd (getMintlist r mrequest w)) =
               calls w @ [PostMintlist mrq (fst (post_mintlist r mrq (server w)))]"
    if "mrequest = Some mrq" "query mrq = Some q"
      "\<not> (firstVerifiedCreators q \<noteq> None \<and> verifiedCollectionAddresses q \<noteq> None)"
    for mrq q
    using that getMintlist_valid [OF that(3,2), of r w]
    by (auto split: prod.splits sum.splits)
  have b: "(\<exists>e. getMintlist r mrequest w = (Inl e, w)) \<longleftrightarrow>
      (case mrequest of
         None \<Rightarrow> True
       | Some mrq \<Rightarrow>
           (case query mrq of
              None \<Rightarrow> True
            | Some q \<Rightarrow> firstVerifiedCreators q \<noteq> None \<and> verifiedCollectionAddresses q \<noteq> None))"
  proof (cases mrequest)
    case None
    then show ?thesis by (simp add: getMintlist_def)
  next
    case (Some mrq)
    show ?thesis
    proof (cases "query mrq")
      case None
      with Some show ?thesis by (simp add: getMintlist_def)
    next
      case q: (Some q)
      show ?thesis
      proof (cases "firstVerifiedCreators q \<noteq> None \<and> verifiedCollectionAddresses q \<noteq> None")
        case True
        with Some q show ?thesis by (simp add: getMintlist_def)
      next
        case False
        have "getMintlist r mrequest w \<noteq> (Inl e, w)" for e
        proof
          assume "getMintlist r mrequest w = (Inl e, w)"
          with d [OF Some q False] show False by simp
        qed
        with Some q False show ?thesis by simp
      qed
    qed
  qed
  from a b proceed d show ?thesis by blast
qed


text \<open>Both selectors, a missing query and a missing request are refused with no call
  made; a query by collections is sent.\<close>

theorem validation_iff_witness:
  "createCollectionWebhook (scripted (held_webhook []) three_pages)
     (Some (collection_request (Some both_selectors))) \<lparr>server = 0, calls = []\<rparr> =
     Some (Inl (Error (''cannot provide both firstVerifiedCreators and '' @
                       ''verifiedCollectionAddresses. Please only provide one.'')),
           \<lparr>server = 0, calls = []\<rparr>)
   \<and> getMintlist (scripted (held_webhook []) three_pages)
       (Some (first_page by_collections)) \<lparr>server = 0, calls = []\<rparr> =
     (Inr page1, \<lparr>server = 1, calls = [PostMintlist (first_page by_collections) (Inr page1)]\<rparr>)
   \<and> createCollectionWebhook (scripted (held_webhook []) three_pages)
       (Some (collection_request None)) \<lparr>server = 0, calls = []\<rparr> =
     Some (Inl (Error ''must provide collectionQuery object.''), \<lparr>server = 0, calls = []\<rparr>)
   \<and> getMintlist (scripted (held_webhook []) three_pages) None \<lparr>server = 0, calls = []\<rparr> =
     (Inl (Error ''must provide query object.''), \<lparr>server = 0, calls = []\<rparr>)"
  using validation_iff [of "scripted (held_webhook []) three_pages"
      "Some (collection_request (Some both_selectors))" "\<lparr>server = 0, calls = []\<rparr>"
      "Some (first_page by_collections)"]
    validation_iff [of "scripted (held_webhook []) three_pages"
      "Some (collection_request None)" "\<lparr>server = 0, calls = []\<rparr>" None]
  by (simp add: createCollectionWebhook_def getMintlist_def axios_post_mintlist_def
      collection_request_def both_selectors_def by_collections_def first_page_def
      scripted_def three_pages_def)

text \<open>
  C4 (the code departs from it). A query with neither selector passes both checks:
  \<open>getMintlist\<close> sends it to the service, and \<open>createCollectionWebhook\<close> drains
  the pages the service answers with and creates a webhook from them, where the
  claim has both fail before any remote call.
\<close>

theorem neither_selector_is_sent:
  "getMintlist (scripted (held_webhook []) three_pages)
     (Some (first_page no_selector)) \<lparr>server = 0, calls = []\<rparr> =
     (Inr page1, \<lparr>server = 1, calls = [PostMintlist (first_page no_selector) (Inr page1)]\<rparr>)
   \<and> createCollectionWebhook (scripted (held_webhook []) three_pages)
       (Some (collection_request (Some no_selector))) \<lparr>server = 0, calls = []\<rparr> =
     Some (Inr (stored (payload (collection_request (Some no_selector))
                          (result page1 @ result page2 @ result page3))),
           \<lparr>server = 3,
            calls = drain_calls no_selector [page1, page2, page3] @
                    [PostWebhooks (payload (collection_request (Some no_selector))
                                     (result page1 @ result page2 @ result page3))
                       (Inr (stored (payload (collection_request (Some no_selector))
                                       (result page1 @ result page2 @ result page3))))]\<rparr>)"
proof -
  have "getMintlist (scripted (held_webhook []) three_pages)
     (Some (first_page no_selector)) \<lparr>server = 0, calls = []\<rparr> =
     (Inr page1, \<lparr>server = 1, calls = [PostMintlist (first_page no_selector) (Inr page1)]\<rparr>)"
    by (simp add: getMintlist_def axios_post_mintlist_def no_selector_def first_page_def
        scripted_def three_pages_def)
  moreover have "drain (scripted (held_webhook []) three_pages) no_selector
      \<lparr>server = 0, calls = []\<rparr> =
     Some (Inr (result page1 @ result page2 @ result page3),
           \<lparr>server = 3, calls = drain_calls no_selector [page1, page2, page3]\<rparr>)"
    by (simp add: drain_def drain_while_step drain_while_stop getMintlist_def
        axios_post_mintlist_def scripted_def three_pages_def no_selector_def first_page_def
        next_page_def page1_def page2_def page3_def)
  moreover have "createCollectionWebhook (scripted (held_webhook []) three_pages)
     (Some (collection_request (Some no_selector))) \<lparr>server = 0, calls = []\<rparr> =
     createCollectionWebhook_try (scripted (held_webhook []) three_pages)
       (collection_request (Some no_selector)) no_selector \<lparr>server = 0, calls = []\<rparr>"
    by (simp add: createCollectionWebhook_def Let_def collection_request_def no_selector_def)
  moreover have "createWebhook (scripted (held_webhook []) three_pages) body W =
      (Inr (stored body),
       \<lparr>server = server W, calls = calls W @ [PostWebhooks body (Inr (stored body))]\<rparr>)"
    for body and W :: "nat world"
    by (simp add: createWebhook_def axios_post_webhooks_def scripted_def)
  ultimately show ?thesis
    by (simp add: createCollectionWebhook_try_def)
qed


end
